theory Spec2Isabelle
  imports Complex_Main "HOL-Library.Word"
begin

section \<open>Text and numbers of the host language\<close>

text \<open>
  The application is a Python program over pandas/geopandas tables. Strings are
  character lists. Coordinates are taken as exact rationals.
\<close>

type_synonym coordinate = rat

text \<open>
  A numeric cell, once \<open>pd.to_numeric\<close> has run, is a 64-bit integer or a double.
  \<open>Finite s m e\<close> is the double of sign \<open>s\<close> (\<open>True\<close> for negative) and magnitude
  \<open>m * 2 ^ e\<close>, so that \<open>Finite True 0 0\<close> is the negative zero; \<open>Infinite s\<close> is
  the infinity of that sign. NaN, pandas' missing marker, is not a value here: it is
  \<open>None\<close> wherever a cell may be missing.
\<close>

datatype float64 = Finite bool nat int | Infinite bool

datatype number = Int64 "64 word" | Float64 float64

definition magnitude :: "nat \<Rightarrow> int \<Rightarrow> rat" where
  "magnitude m e = (if 0 \<le> e then of_nat m * 2 ^ nat e else of_nat m / 2 ^ nat (- e))"

text \<open>\<open>str(v)\<close> of a table cell that holds a string or nothing.\<close>

definition py_str :: "string option \<Rightarrow> string" where
  "py_str v = (case v of None \<Rightarrow> ''None'' | Some s \<Rightarrow> s)"

text \<open>\<open>sep.join(xs)\<close>.\<close>

fun join :: "string \<Rightarrow> string list \<Rightarrow> string" where
  "join sep [] = []"
| "join sep [x] = x"
| "join sep (x # y # ys) = x @ sep @ join sep (y # ys)"

text \<open>
  \<open>float(n)\<close> for a 64-bit integer, which the format specification \<open>f\<close> applies to an
  integer before anything else: exact below \<open>2 ^ 53\<close>, otherwise the integer is cut to
  its 53 leading bits, the cut rounded to the nearest and a tie to the even neighbour.
\<close>

fun bit_length :: "nat \<Rightarrow> nat" where
  "bit_length n = (if n = 0 then 0 else Suc (bit_length (n div 2)))"

declare bit_length.simps [simp del]

definition float_of_int64 :: "64 word \<Rightarrow> float64" where
  "float_of_int64 w =
     (let n = sint w; a = nat \<bar>n\<bar>
      in if a < 2 ^ 53 then Finite (n < 0) a 0
         else
           (let k = bit_length a - 53; q = a div 2 ^ k; r = a mod 2 ^ k; half = 2 ^ (k - 1)
            in Finite (n < 0)
                 (if r < half then q else if half < r then q + 1
                  else if even q then q else q + 1)
                 (int k)))"

text \<open>
  The format specification \<open>,.0f\<close> on a double: an infinity prints as \<open>inf\<close> or
  \<open>-inf\<close>; a finite value is rounded to an integer (a tie goes to the even neighbour),
  written in decimal, and a comma is put before every group of three digits counted
  from the right. The sign is that of the double, also when the value is or rounds to
  zero.
\<close>

definition round_half_even :: "rat \<Rightarrow> int" where
  "round_half_even x =
     (let f = floor x; d = x - of_int f
      in if d < 1 / 2 then f
         else if 1 / 2 < d then f + 1
         else if even f then f else f + 1)"

definition digit :: "nat \<Rightarrow> char" where
  "digit d = ''0123456789'' ! d"

fun str_nat :: "nat \<Rightarrow> string" where
  "str_nat n = (if n < 10 then [digit n] else str_nat (n div 10) @ [digit (n mod 10)])"

declare str_nat.simps [simp del]

fun group3 :: "string \<Rightarrow> string" where
  "group3 (a # b # c # d # ds) = a # b # c # CHR '','' # group3 (d # ds)"
| "group3 ds = ds"

definition thousands :: "string \<Rightarrow> string" where
  "thousands ds = rev (group3 (rev ds))"

definition format_float :: "float64 \<Rightarrow> string" where
  "format_float x =
     (case x of
        Infinite s \<Rightarrow> (if s then ''-inf'' else ''inf'')
      | Finite s m e \<Rightarrow>
          (if s then ''-'' else '''')
            @ thousands (str_nat (nat (round_half_even (magnitude m e)))))"

definition format_comma_0f :: "number \<Rightarrow> string" where
  "format_comma_0f v =
     (case v of
        Int64 w \<Rightarrow> format_float (float_of_int64 w)
      | Float64 x \<Rightarrow> format_float x)"

text \<open>
  The number a string of decimal digits denotes, read from the left with \<open>acc\<close> the
  value so far; \<open>None\<close> when a character is no digit.
\<close>

fun digits_value :: "string \<Rightarrow> nat \<Rightarrow> nat option" where
  "digits_value [] acc = Some acc"
| "digits_value (c # cs) acc =
     (if 48 \<le> (of_char c :: nat) \<and> (of_char c :: nat) \<le> 57
      then digits_value cs (10 * acc + (of_char c - 48))
      else None)"


section \<open>Tables\<close>

text \<open>
  A cell of a column as it arrives from the remote source, before any coercion: nothing,
  a string, or a number.
\<close>

datatype cell = Null | Text string | Numeric number

text \<open>
  A row of the properties table. The four assessed-value columns have type \<open>'v\<close>: \<open>cell\<close>
  as fetched, \<open>number option\<close> after the coercion of lines 40-42. A column that the
  table lacks altogether is \<open>Null\<close> in every row: line 41 skips it, and \<open>row.get\<close> then
  returns \<open>None\<close>, which \<open>pd.notna\<close> rejects like NaN. The timestamp columns of lines
  44-51 are display text that no handler reads and are left out.
\<close>

record ('v, 'g) property_row =
  comm_code :: "string option"
  comm_name :: "string option"
  address :: "string option"
  assessment_class_description :: "string option"
  assessed_value :: 'v
  re_assessed_value :: 'v
  nr_assessed_value :: 'v
  fl_assessed_value :: 'v
  geometry :: 'g

text \<open>The row once line 43 has added the derived column.\<close>

record ('v, 'g) property = "('v, 'g) property_row" +
  formatted_assessed_values :: string

record 'g community =
  name :: "string option"
  boundary_comm_code :: "string option"
  boundary_geometry :: 'g

record 'g sector_row =
  sector :: "string option"
  sector_geometry :: 'g

text \<open>
  A GeoDataFrame: its rows in order and its declared coordinate reference system, as
  \<open>crs.to_string()\<close> prints it, or \<open>None\<close> when the table declares none.
\<close>

record 'r frame =
  rows :: "'r list"
  crs :: "string option"

text \<open>
  \<open>gpd.read_file\<close> takes the attribute columns of a table from the features it reads.
  A table with rows has the columns of its row type, a property that a feature omits
  being a missing cell; a table read from a source without features has the geometry
  column alone, and \<open>table['name']\<close> or \<open>table['comm_code']\<close> on it raises KeyError.
\<close>

definition has_attribute_columns :: "'r frame \<Rightarrow> bool" where
  "has_attribute_columns F = (rows F \<noteq> [])"


section \<open>The formatted assessed-value summary (lines 11-31)\<close>


definition notna :: "number option \<Rightarrow> bool" where
  "notna v = (v \<noteq> None)"

definition format_assessed_value :: "(number option, 'g, 'z) property_row_scheme \<Rightarrow> string" where
  "format_assessed_value row =
     (let assessed = assessed_value row;
          re_assessed = re_assessed_value row;
          nr_assessed = nr_assessed_value row;
          fl_assessed = fl_assessed_value row;
          formatted_values = [];
          formatted_values =
            (if notna assessed
             then formatted_values @ [''Assessed Value: $'' @ format_comma_0f (the assessed)]
             else formatted_values);
          formatted_values =
            (if notna re_assessed
             then formatted_values
                    @ [''Residential Assessed Value: $'' @ format_comma_0f (the re_assessed)]
             else formatted_values);
          formatted_values =
            (if notna nr_assessed
             then formatted_values
                    @ [''Non-Residential Assessed Value: $'' @ format_comma_0f (the nr_assessed)]
             else formatted_values);
          formatted_values =
            (if notna fl_assessed
             then formatted_values
                    @ [''Farm Land Assessed Value: $'' @ format_comma_0f (the fl_assessed)]
             else formatted_values)
      in if formatted_values \<noteq> [] then join ''<br>'' formatted_values
         else ''No assessed value information'')"





section \<open>Library functions the program calls\<close>

text \<open>
  Three computations belong to third-party libraries and are parameters of the model:
  the parser behind \<open>pd.to_numeric\<close> (\<open>None\<close> when the string is no number, or is
  the text of NaN), the
  coordinate transformation from a named reference system to EPSG:4326, and the
  centroid of a geometry as an \<open>(x, y)\<close> pair.
\<close>

record 'g lib =
  parse_number :: "string \<Rightarrow> number option"
  transform :: "string \<Rightarrow> 'g \<Rightarrow> 'g"
  centroid :: "'g \<Rightarrow> coordinate \<times> coordinate"

datatype exn = FetchError | ParseError | ValueError | KeyError

text \<open>\<open>pd.to_numeric(column, errors='coerce')\<close> on one cell: what does not parse is NaN.\<close>

definition to_numeric :: "(string \<Rightarrow> number option) \<Rightarrow> cell \<Rightarrow> number option" where
  "to_numeric parse c =
     (case c of Null \<Rightarrow> None | Text s \<Rightarrow> parse s | Numeric x \<Rightarrow> Some x)"

text \<open>
  \<open>frame.to_crs(epsg=4326)\<close>: a table without a declared reference system cannot be
  transformed (ValueError); otherwise every geometry is transformed from the declared
  system and the result declares EPSG:4326. \<open>upd\<close> is the update of the row type's
  geometry column.
\<close>

definition to_crs ::
    "(string \<Rightarrow> 'g \<Rightarrow> 'g) \<Rightarrow> (('g \<Rightarrow> 'g) \<Rightarrow> 'r \<Rightarrow> 'r) \<Rightarrow> 'r frame \<Rightarrow> exn + 'r frame" where
  "to_crs tr upd F =
     (case crs F of
        None \<Rightarrow> Inl ValueError
      | Some src \<Rightarrow> Inr \<lparr>rows = map (upd (tr src)) (rows F), crs = Some ''EPSG:4326''\<rparr>)"

text \<open>
  The guarded reprojection of lines 54-55 and 175-176:
  \<open>if F.crs and F.crs.to_string() != 'EPSG:4326': F = F.to_crs(epsg=4326)\<close>.
\<close>

definition reproject_if_needed ::
    "(string \<Rightarrow> 'g \<Rightarrow> 'g) \<Rightarrow> (('g \<Rightarrow> 'g) \<Rightarrow> 'r \<Rightarrow> 'r) \<Rightarrow> 'r frame \<Rightarrow> exn + 'r frame" where
  "reproject_if_needed tr upd F =
     (if crs F \<noteq> None \<and> the (crs F) \<noteq> ''EPSG:4326'' then to_crs tr upd F else Inr F)"

text \<open>\<open>series == value\<close> on a column of strings: a missing cell equals nothing.\<close>

definition series_eq :: "string option \<Rightarrow> string option \<Rightarrow> bool" where
  "series_eq a b = (case a of None \<Rightarrow> False | Some x \<Rightarrow> (case b of None \<Rightarrow> False | Some y \<Rightarrow> x = y))"

text \<open>\<open>series.mean()\<close>: NaN (\<open>None\<close>) on an empty column.\<close>

definition mean :: "coordinate list \<Rightarrow> coordinate option" where
  "mean xs = (if xs = [] then None else Some (sum_list xs / of_nat (length xs)))"


section \<open>Loading the datasets at start-up (lines 34-65)\<close>

record 'g globals =
  properties_gdf :: "(number option, 'g) property frame option"
  communities_gdf :: "'g community frame option"
  sector_gdf :: "'g sector_row frame option"
  calgary_center :: "(coordinate \<times> coordinate) option"

text \<open>Lines 40-42 on one row: each of the four value columns is coerced.\<close>

definition coerce_row ::
    "(string \<Rightarrow> number option) \<Rightarrow> (cell, 'g) property_row \<Rightarrow> (number option, 'g) property_row" where
  "coerce_row parse r =
     \<lparr>comm_code = comm_code r, comm_name = comm_name r, address = address r,
      assessment_class_description = assessment_class_description r,
      assessed_value = to_numeric parse (assessed_value r),
      re_assessed_value = to_numeric parse (re_assessed_value r),
      nr_assessed_value = to_numeric parse (nr_assessed_value r),
      fl_assessed_value = to_numeric parse (fl_assessed_value r),
      geometry = geometry r\<rparr>"

text \<open>Line 43 on one row: the derived column is computed from the coerced row.\<close>

definition add_formatted ::
    "(number option, 'g) property_row \<Rightarrow> (number option, 'g) property" where
  "add_formatted r =
     \<lparr>comm_code = comm_code r, comm_name = comm_name r, address = address r,
      assessment_class_description = assessment_class_description r,
      assessed_value = assessed_value r,
      re_assessed_value = re_assessed_value r,
      nr_assessed_value = nr_assessed_value r,
      fl_assessed_value = fl_assessed_value r,
      geometry = geometry r,
      formatted_assessed_values = format_assessed_value r\<rparr>"

definition preprocess_properties ::
    "(string \<Rightarrow> number option) \<Rightarrow> (cell, 'g) property_row frame
       \<Rightarrow> (number option, 'g) property frame" where
  "preprocess_properties parse F =
     \<lparr>rows = map (\<lambda>r. add_formatted (coerce_row parse r)) (rows F), crs = crs F\<rparr>"

text \<open>
  Line 58: the latitude/longitude pair \<open>[mean of centroid.y, mean of centroid.x]\<close>;
  \<open>None\<close> stands for the pair of NaN an empty boundary table gives.
\<close>

definition center_of :: "'g lib \<Rightarrow> 'g community frame \<Rightarrow> (coordinate \<times> coordinate) option" where
  "center_of lib C =
     (case mean (map (\<lambda>b. snd (centroid lib (boundary_geometry b))) (rows C)) of
        None \<Rightarrow> None
      | Some y \<Rightarrow>
          (case mean (map (\<lambda>b. fst (centroid lib (boundary_geometry b))) (rows C)) of
             None \<Rightarrow> None
           | Some x \<Rightarrow> Some (y, x)))"

text \<open>
  The body of the \<open>try\<close>. Each \<open>gpd.read_file\<close> either raises or yields a table; the
  first exception leaves the body.
\<close>

definition load_try ::
    "'g lib \<Rightarrow> exn + (cell, 'g) property_row frame \<Rightarrow> exn + 'g community frame
       \<Rightarrow> exn + 'g sector_row frame \<Rightarrow> exn + 'g globals" where
  "load_try lib fetch_properties fetch_communities fetch_sectors =
     (case fetch_properties of
        Inl e \<Rightarrow> Inl e
      | Inr properties_raw \<Rightarrow>
     (case fetch_communities of
        Inl e \<Rightarrow> Inl e
      | Inr communities \<Rightarrow>
     (case fetch_sectors of
        Inl e \<Rightarrow> Inl e
      | Inr sectors \<Rightarrow>
     (let properties = preprocess_properties (parse_number lib) properties_raw
      in case reproject_if_needed (transform lib) sector_geometry_update sectors of
           Inl e \<Rightarrow> Inl e
         | Inr sectors' \<Rightarrow>
             Inr \<lparr>properties_gdf = Some properties,
                  communities_gdf = Some communities,
                  sector_gdf = Some sectors',
                  calgary_center = center_of lib communities\<rparr>))))"

text \<open>
  The \<open>except\<close> clause of lines 60-65: whatever the body had assigned before the
  exception, all four names are assigned anew.
\<close>

definition default_center :: "coordinate \<times> coordinate" where
  "default_center = (510447 / 10000, - (1140719 / 10000))"

definition load_data ::
    "'g lib \<Rightarrow> exn + (cell, 'g) property_row frame \<Rightarrow> exn + 'g community frame
       \<Rightarrow> exn + 'g sector_row frame \<Rightarrow> 'g globals" where
  "load_data lib fetch_properties fetch_communities fetch_sectors =
     (case load_try lib fetch_properties fetch_communities fetch_sectors of
        Inr g \<Rightarrow> g
      | Inl e \<Rightarrow>
          \<lparr>properties_gdf = None, communities_gdf = None, sector_gdf = None,
           calgary_center = Some default_center\<rparr>)"


section \<open>Request handlers\<close>

text \<open>
  What a handler hands to the map library and to the template: the layers with their
  data and tooltip/popup fields, the centre and zoom, and the display name. Styling
  constants are left out. A handler returns its response together with the process-wide
  datasets as it leaves them.
\<close>

datatype 'g layer_data =
    Communities "'g community frame"
  | Sectors "'g sector_row frame"
  | Properties "(number option, 'g) property frame"

record 'g layer =
  layer_name :: string
  layer_data :: "'g layer_data"
  tooltip_fields :: "string list"
  popup_fields :: "string list"

record 'g folium_map =
  location :: "coordinate \<times> coordinate"
  zoom_start :: nat
  layers :: "'g layer list"
  layer_control :: bool

datatype 'g response =
    Rendered "'g folium_map" "string option"
  | Plain string nat
  | Raised exn

text \<open>
  The \<open>community_name\<close> argument a response passes to the template, when it renders
  the map page at all.
\<close>

fun community_name :: "'g response \<Rightarrow> string option option" where
  "community_name (Rendered m n) = Some n"
| "community_name (Plain body status) = None"
| "community_name (Raised e) = None"

text \<open>Python's \<open>not s\<close> on the form field: true for a missing field and for the empty string.\<close>

definition py_not :: "string option \<Rightarrow> bool" where
  "py_not v = (case v of None \<Rightarrow> True | Some s \<Rightarrow> s = [])"

text \<open>
  Lines 70-100. The map library rejects a centre that is NaN (ValueError), which is the
  centre an empty boundary table leaves; its other checks are not part of this
  development.
\<close>

definition calgary_overview :: "'g globals \<Rightarrow> 'g response \<times> 'g globals" where
  "calgary_overview g =
     (if communities_gdf g = None \<or> sector_gdf g = None
      then (Plain ''Error: Data not loaded.'' 500, g)
      else
        (case calgary_center g of
           None \<Rightarrow> (Raised ValueError, g)
         | Some c \<Rightarrow>
             (Rendered
                \<lparr>location = c, zoom_start = 10,
                 layers =
                   [\<lparr>layer_name = ''Community Boundaries'',
                     layer_data = Communities (the (communities_gdf g)),
                     tooltip_fields = [''name''], popup_fields = []\<rparr>,
                    \<lparr>layer_name = ''Community Sectors'',
                     layer_data = Sectors (the (sector_gdf g)),
                     tooltip_fields = [''sector''], popup_fields = []\<rparr>],
                 layer_control = True\<rparr>
                (Some ''Calgary Overview''), g)))"

text \<open>Line 125: the boundary rows whose \<open>name\<close> equals the selection.\<close>

definition select_boundary :: "'g community frame \<Rightarrow> string \<Rightarrow> 'g community frame" where
  "select_boundary C selected_community =
     C\<lparr>rows := filter (\<lambda>b. series_eq (name b) (Some selected_community)) (rows C)\<rparr>"

text \<open>Lines 137-139: the property rows whose \<open>comm_code\<close> equals the filter code.\<close>

definition select_properties ::
    "(number option, 'g) property frame \<Rightarrow> string option \<Rightarrow> (number option, 'g) property frame" where
  "select_properties P property_filter_code =
     P\<lparr>rows := filter (\<lambda>r. series_eq (comm_code r) property_filter_code) (rows P)\<rparr>"

definition detail_fields :: "string list" where
  "detail_fields = [''address'', ''assessment_class_description'', ''formatted_assessed_values'']"

text \<open>
  Lines 115-200. An exception that leaves the handler is the response \<open>Raised\<close>
  (the framework answers it with status 500): the KeyError of \<open>communities_gdf['name']\<close>
  on line 125 and of \<open>properties_gdf['comm_code']\<close> on line 138 when the table has no
  attribute column, and the ValueError of \<open>to_crs\<close> on lines 157-158.
\<close>

definition show_map :: "'g lib \<Rightarrow> 'g globals \<Rightarrow> string option \<Rightarrow> 'g response \<times> 'g globals" where
  "show_map lib g selected =
     (if py_not selected \<or> properties_gdf g = None \<or> communities_gdf g = None
         \<or> sector_gdf g = None
      then (Plain ''Error: Community not selected or data not loaded.'' 400, g)
      else if \<not> has_attribute_columns (the (communities_gdf g))
      then (Raised KeyError, g)
      else
        (let selected_community = the selected;
             community_boundary = select_boundary (the (communities_gdf g)) selected_community
         in if rows community_boundary = []
            then (Plain (''No boundary data found for community: '' @ selected_community) 404, g)
            else
              (let property_filter_code = boundary_comm_code (hd (rows community_boundary))
               in if \<not> has_attribute_columns (the (properties_gdf g))
                  then (Raised KeyError, g)
                  else
              (let community_properties_gdf =
                     select_properties (the (properties_gdf g)) property_filter_code
               in if rows community_properties_gdf = []
                  then (Plain (''No property data found for community: ''
                                 @ py_str (name (hd (rows community_boundary)))
                                 @ '' (Filter Code: '' @ py_str property_filter_code @ '').'')
                              404, g)
                  else
                    (let long_comm_name = comm_name (hd (rows community_properties_gdf))
                     in case to_crs (transform lib) geometry_update community_properties_gdf of
                          Inl e \<Rightarrow> (Raised e, g)
                        | Inr community_properties_gdf \<Rightarrow>
                     (case to_crs (transform lib) boundary_geometry_update community_boundary of
                          Inl e \<Rightarrow> (Raised e, g)
                        | Inr community_boundary \<Rightarrow>
                     (let c = centroid lib (boundary_geometry (hd (rows community_boundary)));
                          map_center = (snd c, fst c);
                          boundary_layer =
                            \<lparr>layer_name = ''Boundary: '' @ py_str long_comm_name,
                             layer_data = Communities community_boundary,
                             tooltip_fields = [], popup_fields = []\<rparr>
                      in case reproject_if_needed (transform lib) geometry_update
                                community_properties_gdf of
                           Inl e \<Rightarrow> (Raised e, g)
                         | Inr community_properties_gdf \<Rightarrow>
                             (Rendered
                                \<lparr>location = map_center, zoom_start = 14,
                                 layers =
                                   [boundary_layer,
                                    \<lparr>layer_name = selected_community @ '' Properties'',
                                     layer_data = Properties community_properties_gdf,
                                     tooltip_fields = detail_fields,
                                     popup_fields = detail_fields\<rparr>],
                                 layer_control = True\<rparr>
                                long_comm_name, g))))))))"

text \<open>
  The routing layer: a request is an overview request or a detail request with its form
  field; the process serves requests one after another on the datasets loaded once.
\<close>

datatype request = Overview | Detail "string option"

definition handle :: "'g lib \<Rightarrow> 'g globals \<Rightarrow> request \<Rightarrow> 'g response \<times> 'g globals" where
  "handle lib g req =
     (case req of Overview \<Rightarrow> calgary_overview g | Detail selected \<Rightarrow> show_map lib g selected)"

fun serve :: "'g lib \<Rightarrow> 'g globals \<Rightarrow> request list \<Rightarrow> 'g response list \<times> 'g globals" where
  "serve lib g [] = ([], g)"
| "serve lib g (req # reqs) =
     (case handle lib g req of
        (resp, g') \<Rightarrow> (case serve lib g' reqs of (resps, g'') \<Rightarrow> (resp # resps, g'')))"

section \<open>A small city for evaluation\<close>

text \<open>
  Concrete data on which the model is run: geometries are points, the centroid of a
  point is the point, a table declared in another reference system is transformed by
  halving its coordinates, and the number parser accepts unsigned decimal integers,
  which it reads as doubles.
  The boundary table has HILLHURST (code HIL), the administrative sub-area 01B whose
  properties carry the long name, and SUNNYSIDE (code SSD) without any property; the
  properties table has three HIL rows, two BOW rows and one 01B row.
\<close>

definition parse_unsigned :: "string \<Rightarrow> number option" where
  "parse_unsigned s =
     (if s = [] then None
      else map_option (\<lambda>n. Float64 (Finite False n 0)) (digits_value s 0))"

type_synonym point = "coordinate \<times> coordinate"

definition city_lib :: "point lib" where
  "city_lib =
     \<lparr>parse_number = parse_unsigned,
      transform = (\<lambda>src p. if src = ''EPSG:4326'' then p else (fst p / 2, snd p / 2)),
      centroid = (\<lambda>p. p)\<rparr>"

definition raw_property ::
    "string \<Rightarrow> string \<Rightarrow> string \<Rightarrow> cell \<Rightarrow> cell \<Rightarrow> point \<Rightarrow> (cell, point) property_row" where
  "raw_property code long_name addr overall residential pt =
     \<lparr>comm_code = Some code, comm_name = Some long_name, address = Some addr,
      assessment_class_description = Some ''Residential'',
      assessed_value = overall, re_assessed_value = residential,
      nr_assessed_value = Null, fl_assessed_value = Text ''n/a'',
      geometry = pt\<rparr>"

definition city_properties_raw :: "(cell, point) property_row frame" where
  "city_properties_raw =
     \<lparr>rows =
        [raw_property ''HIL'' ''HILLHURST'' ''1 A ST'' (Text ''500000'') Null (- 114, 51),
         raw_property ''BOW'' ''BOWNESS'' ''2 B ST'' (Text ''1234567'') (Text ''1234567'') (- 115, 51),
         raw_property ''HIL'' ''HILLHURST'' ''3 C ST'' (Text ''0'') (Text ''zero'') (- 114, 52),
         raw_property ''01B'' ''RESIDUAL WARD 1 - SUB AREA 1B'' ''4 D ST'' Null Null (- 113, 50),
         raw_property ''BOW'' ''BOWNESS'' ''5 E ST'' (Numeric (Float64 (Finite False 5 (- 1)))) Null
           (- 115, 52),
         raw_property ''HIL'' ''HILLHURST'' ''6 F ST'' (Text []) (Numeric (Int64 999)) (- 114, 53)],
      crs = Some ''EPSG:4326''\<rparr>"

definition city_communities :: "point community frame" where
  "city_communities =
     \<lparr>rows =
        [\<lparr>name = Some ''HILLHURST'', boundary_comm_code = Some ''HIL'',
          boundary_geometry = (- 114, 52)\<rparr>,
         \<lparr>name = Some ''01B'', boundary_comm_code = Some ''01B'',
          boundary_geometry = (- 113, 50)\<rparr>,
         \<lparr>name = Some ''SUNNYSIDE'', boundary_comm_code = Some ''SSD'',
          boundary_geometry = (- 114, 51)\<rparr>],
      crs = Some ''EPSG:4326''\<rparr>"

definition city_sectors :: "point sector_row frame" where
  "city_sectors =
     \<lparr>rows = [\<lparr>sector = Some ''CENTRE'', sector_geometry = (- 228, 102)\<rparr>],
      crs = Some ''EPSG:3857''\<rparr>"

definition city_globals :: "point globals" where
  "city_globals =
     load_data city_lib (Inr city_properties_raw) (Inr city_communities) (Inr city_sectors)"

text \<open>
  The same city when a source answers with a collection without features: first the
  boundaries, then the properties.
\<close>

definition no_boundaries_globals :: "point globals" where
  "no_boundaries_globals =
     load_data city_lib (Inr city_properties_raw)
       (Inr \<lparr>rows = [], crs = Some ''EPSG:4326''\<rparr>) (Inr city_sectors)"

definition no_properties_globals :: "point globals" where
  "no_properties_globals =
     load_data city_lib (Inr \<lparr>rows = [], crs = Some ''EPSG:4326''\<rparr>)
       (Inr city_communities) (Inr city_sectors)"

definition unavailable_globals :: "point globals" where
  "unavailable_globals =
     load_data city_lib (Inr city_properties_raw) (Inl FetchError) (Inr city_sectors)"


section \<open>Properties of the number format\<close>

lemmas format_eval =
  format_comma_0f_def format_float_def magnitude_def thousands_def str_nat.simps digit_def


lemma round_half_even_of_int: "round_half_even (of_int k) = k"
  by (simp add: round_half_even_def)

lemma round_half_even_of_nat: "round_half_even (of_nat k) = int k"
  using round_half_even_of_int [of "int k"] by simp

subsection \<open>Digits\<close>












subsection \<open>Separators\<close>






subsection \<open>Integers\<close>


subsection \<open>Renderings\<close>




lemma format_negative: "format_comma_0f (Float64 (Finite True 1234567 0)) = ''-1,234,567''"
  using round_half_even_of_nat [of 1234567] by (simp add: format_eval)

lemma round_half_even_ties: "round_half_even (5 / 2) = 2" "round_half_even (7 / 2) = 4"
  by code_simp+

lemma format_tie: "format_comma_0f (Float64 (Finite False 5 (- 1))) = ''2''"
  by (simp add: format_eval round_half_even_ties)


lemma format_int64_small: "format_comma_0f (Int64 999) = ''999''"
proof -
  have "float_of_int64 999 = Finite False 999 0"
    by (simp add: float_of_int64_def)
  then show ?thesis
    using round_half_even_of_nat [of 999] by (simp add: format_eval)
qed




section \<open>The summary\<close>







section \<open>Selecting rows\<close>

lemma series_eq_Some: "series_eq v (Some s) = (v = Some s)"
  by (cases v) (auto simp: series_eq_def)

lemma select_boundary_rows:
  "rows (select_boundary C s) = filter (\<lambda>b. name b = Some s) (rows C)"
  by (simp add: select_boundary_def series_eq_Some)

lemma select_boundary_crs: "crs (select_boundary C s) = crs C"
  by (simp add: select_boundary_def)

lemma select_boundary_name:
  assumes "rows (select_boundary C s) = b # bs"
  shows "name b = Some s"
proof -
  have "b \<in> set (filter (\<lambda>b. name b = Some s) (rows C))"
    using assms by (simp add: select_boundary_rows)
  then show ?thesis by simp
qed

lemma select_properties_rows:
  "rows (select_properties P (Some code)) = filter (\<lambda>r. comm_code r = Some code) (rows P)"
  by (simp add: select_properties_def series_eq_Some)

text \<open>A boundary without a code selects no property, not the properties without a code.\<close>

lemma select_properties_missing_code: "rows (select_properties P None) = []"
  by (simp add: select_properties_def series_eq_def split: option.splits)

lemma select_properties_crs: "crs (select_properties P code) = crs P"
  by (simp add: select_properties_def)

lemma add_formatted_fields:
  "comm_code (add_formatted r) = comm_code r"
  "comm_name (add_formatted r) = comm_name r"
  "address (add_formatted r) = address r"
  "geometry (add_formatted r) = geometry r"
  "formatted_assessed_values (add_formatted r) = format_assessed_value r"
  by (simp_all add: add_formatted_def)

lemma coerce_row_fields:
  "comm_code (coerce_row parse r) = comm_code r"
  "comm_name (coerce_row parse r) = comm_name r"
  "address (coerce_row parse r) = address r"
  "assessed_value (coerce_row parse r) = to_numeric parse (assessed_value r)"
  "re_assessed_value (coerce_row parse r) = to_numeric parse (re_assessed_value r)"
  "nr_assessed_value (coerce_row parse r) = to_numeric parse (nr_assessed_value r)"
  "fl_assessed_value (coerce_row parse r) = to_numeric parse (fl_assessed_value r)"
  by (simp_all add: coerce_row_def)

text \<open>
  Claim C1. For every properties table, every row and every resolved community code,
  the subset selected for the detail view contains the row exactly when the row is in
  the table and its community code equals the resolved code, character for character;
  the subset keeps the table's order.
\<close>

theorem property_subset_exact:
  "rows (select_properties P (Some code)) = filter (\<lambda>r. comm_code r = Some code) (rows P)
   \<and> (r \<in> set (rows (select_properties P (Some code)))
        \<longleftrightarrow> r \<in> set (rows P) \<and> comm_code r = Some code)"
  by (simp add: select_properties_rows)

text \<open>
  The scenario of the specification: of the six rows, code HIL selects the three HIL
  rows and neither the BOW rows nor a row whose code only resembles it.
\<close>

theorem property_subset_exact_witness:
  "map address
     (rows (select_properties (preprocess_properties parse_unsigned city_properties_raw)
        (Some ''HIL'')))
   = [Some ''1 A ST'', Some ''3 C ST'', Some ''6 F ST'']
   \<and> rows (select_properties (preprocess_properties parse_unsigned city_properties_raw)
        (Some ''hil'')) = []"
  using property_subset_exact
    [of "preprocess_properties parse_unsigned city_properties_raw" "''HIL''"]
    property_subset_exact
    [of "preprocess_properties parse_unsigned city_properties_raw" "''hil''"]
  by (simp add: preprocess_properties_def city_properties_raw_def add_formatted_fields
        coerce_row_fields raw_property_def)


section \<open>Reprojection\<close>

lemma to_crs_declared:
  "crs F = Some src \<Longrightarrow>
     to_crs tr upd F = Inr \<lparr>rows = map (upd (tr src)) (rows F), crs = Some ''EPSG:4326''\<rparr>"
  by (simp add: to_crs_def)

lemma to_crs_undeclared: "crs F = None \<Longrightarrow> to_crs tr upd F = Inl ValueError"
  by (simp add: to_crs_def)

lemma reproject_if_needed_same:
  "crs F = Some ''EPSG:4326'' \<Longrightarrow> reproject_if_needed tr upd F = Inr F"
  by (simp add: reproject_if_needed_def)

text \<open>The guard never lets \<open>to_crs\<close> meet a table without a reference system.\<close>

lemma reproject_if_needed_total: "\<exists>F'. reproject_if_needed tr upd F = Inr F'"
  by (cases "crs F") (simp_all add: reproject_if_needed_def to_crs_def)

lemma to_crs_identity:
  assumes "crs F = Some ''EPSG:4326''" and "\<And>r. upd (tr ''EPSG:4326'') r = r"
  shows "to_crs tr upd F = Inr F"
proof -
  have "map (upd (tr ''EPSG:4326'')) (rows F) = rows F"
    using assms(2) by (simp add: map_idI)
  with assms(1) show ?thesis by (simp add: to_crs_def)
qed

text \<open>
  Claim C9. A table that already declares EPSG:4326 passes through the reprojection
  step of lines 54-55 and 175-176 unchanged, whatever the coordinate transformation of
  the library does: the guard skips the call. Lines 157-158 call \<open>to_crs\<close> without
  the guard; there the table is unchanged as soon as the library's transformation from
  EPSG:4326 to EPSG:4326 is the identity on geometries.
\<close>

theorem reprojection_noop:
  assumes "crs F = Some ''EPSG:4326''"
  shows "reproject_if_needed tr upd F = Inr F
    \<and> ((\<forall>x. tr ''EPSG:4326'' x = x) \<longrightarrow>
          (crs P = Some ''EPSG:4326'' \<longrightarrow> to_crs tr geometry_update P = Inr P)
        \<and> (crs C = Some ''EPSG:4326'' \<longrightarrow> to_crs tr boundary_geometry_update C = Inr C))"
proof (intro conjI impI)
  show "reproject_if_needed tr upd F = Inr F"
    using assms by (rule reproject_if_needed_same)
next
  assume id: "\<forall>x. tr ''EPSG:4326'' x = x" and c: "crs P = Some ''EPSG:4326''"
  have "geometry_update (tr ''EPSG:4326'') r = r" for r
    using id by (cases r) simp
  with c show "to_crs tr geometry_update P = Inr P" by (rule to_crs_identity)
next
  assume id: "\<forall>x. tr ''EPSG:4326'' x = x" and c: "crs C = Some ''EPSG:4326''"
  have "boundary_geometry_update (tr ''EPSG:4326'') r = r" for r
    using id by (cases r) simp
  with c show "to_crs tr boundary_geometry_update C = Inr C" by (rule to_crs_identity)
qed

theorem reprojection_noop_witness:
  "reproject_if_needed (transform city_lib) boundary_geometry_update city_communities
     = Inr city_communities
   \<and> to_crs (transform city_lib) geometry_update
        (preprocess_properties parse_unsigned city_properties_raw)
     = Inr (preprocess_properties parse_unsigned city_properties_raw)
   \<and> to_crs (transform city_lib) boundary_geometry_update city_communities
     = Inr city_communities"
proof -
  have c: "crs city_communities = Some ''EPSG:4326''"
    by (simp add: city_communities_def)
  have p: "crs (preprocess_properties parse_unsigned city_properties_raw) = Some ''EPSG:4326''"
    by (simp add: preprocess_properties_def city_properties_raw_def)
  have i: "\<forall>x. transform city_lib ''EPSG:4326'' x = x"
    by (simp add: city_lib_def)
  from reprojection_noop
         [OF c, of "transform city_lib" boundary_geometry_update
            "preprocess_properties parse_unsigned city_properties_raw" city_communities]
       c p i
  show ?thesis by simp
qed


section \<open>Loading\<close>

lemma load_try_fetch_failure:
  "isl fp \<or> isl fc \<or> isl fs \<Longrightarrow> isl (load_try lib fp fc fs)"
  by (cases fp; cases fc; cases fs) (simp_all add: load_try_def)

lemma load_data_failure:
  "isl (load_try lib fp fc fs) \<Longrightarrow>
     load_data lib fp fc fs =
       \<lparr>properties_gdf = None, communities_gdf = None, sector_gdf = None,
        calgary_center = Some default_center\<rparr>"
  by (cases "load_try lib fp fc fs") (simp_all add: load_data_def)

text \<open>
  When the three fetches succeed the load succeeds, whatever the cells hold: the
  coercion and the guarded reprojection raise nothing.
\<close>

lemma load_data_success:
  "\<exists>S'. load_data lib (Inr P) (Inr C) (Inr S) =
     \<lparr>properties_gdf = Some (preprocess_properties (parse_number lib) P),
      communities_gdf = Some C, sector_gdf = Some S', calgary_center = center_of lib C\<rparr>"
proof -
  obtain S' where "reproject_if_needed (transform lib) sector_geometry_update S = Inr S'"
    using reproject_if_needed_total by blast
  then show ?thesis by (simp add: load_data_def load_try_def)
qed

lemma load_data_all_or_nothing:
  "(properties_gdf (load_data lib fp fc fs) = None) = (communities_gdf (load_data lib fp fc fs) = None)
   \<and> (communities_gdf (load_data lib fp fc fs) = None) = (sector_gdf (load_data lib fp fc fs) = None)"
proof (cases "isl fp \<or> isl fc \<or> isl fs")
  case True
  then show ?thesis by (simp add: load_data_failure load_try_fetch_failure)
next
  case False
  then obtain P C S where "fp = Inr P" "fc = Inr C" "fs = Inr S"
    by (cases fp; cases fc; cases fs) simp_all
  with load_data_success [of lib P C S] show ?thesis by auto
qed

text \<open>
  Claim C7. If fetching or parsing any of the three tables fails, the load leaves all
  three dataset references unavailable and sets the display centre to the fallback
  coordinate (51.0447, -114.0719); and for every outcome of the fetches the three
  references are available together or unavailable together.
\<close>

theorem load_failure_unavailable:
  "(isl fetch_properties \<or> isl fetch_communities \<or> isl fetch_sectors \<longrightarrow>
      load_data lib fetch_properties fetch_communities fetch_sectors =
        \<lparr>properties_gdf = None, communities_gdf = None, sector_gdf = None,
         calgary_center = Some (510447 / 10000, - (1140719 / 10000))\<rparr>)
   \<and> (properties_gdf (load_data lib fetch_properties fetch_communities fetch_sectors) = None)
       = (communities_gdf (load_data lib fetch_properties fetch_communities fetch_sectors) = None)
   \<and> (communities_gdf (load_data lib fetch_properties fetch_communities fetch_sectors) = None)
       = (sector_gdf (load_data lib fetch_properties fetch_communities fetch_sectors) = None)"
  using load_data_all_or_nothing [of lib fetch_properties fetch_communities fetch_sectors]
  by (simp add: load_data_failure load_try_fetch_failure default_center_def)

text \<open>The properties arrive, the boundaries do not: nothing stays available.\<close>

theorem load_failure_unavailable_witness:
  "load_data city_lib (Inr city_properties_raw) (Inl FetchError) (Inr city_sectors) =
     \<lparr>properties_gdf = None, communities_gdf = None, sector_gdf = None,
      calgary_center = Some (510447 / 10000, - (1140719 / 10000))\<rparr>"
  using load_failure_unavailable
    [of "Inr city_properties_raw" "Inl FetchError" "Inr city_sectors" city_lib]
  by simp


section \<open>Coercion of the assessed values\<close>












section \<open>The branches of the detail handler\<close>

lemma select_boundary_populated:
  "rows (select_boundary C s) = b # bs \<Longrightarrow> has_attribute_columns C"
  by (auto simp: has_attribute_columns_def select_boundary_def)

lemma select_properties_populated:
  "rows (select_properties P code) = p # ps \<Longrightarrow> has_attribute_columns P"
  by (auto simp: has_attribute_columns_def select_properties_def)

lemma show_map_guard:
  "py_not selected \<or> properties_gdf g = None \<or> communities_gdf g = None \<or> sector_gdf g = None
   \<Longrightarrow> show_map lib g selected
         = (Plain ''Error: Community not selected or data not loaded.'' 400, g)"
  by (simp add: show_map_def)

text \<open>Line 125 on a boundary table without attribute columns.\<close>

lemma show_map_boundary_key_error:
  assumes "properties_gdf g = Some P" "communities_gdf g = Some C" "sector_gdf g = Some S"
    and "s \<noteq> []" and "\<not> has_attribute_columns C"
  shows "show_map lib g (Some s) = (Raised KeyError, g)"
  using assms by (simp add: show_map_def py_not_def)

lemma show_map_no_boundary:
  assumes "properties_gdf g = Some P" "communities_gdf g = Some C" "sector_gdf g = Some S"
    and "s \<noteq> []" and "has_attribute_columns C" and "rows (select_boundary C s) = []"
  shows "show_map lib g (Some s) = (Plain (''No boundary data found for community: '' @ s) 404, g)"
  using assms by (simp add: show_map_def py_not_def)

text \<open>Line 138 on a properties table without attribute columns.\<close>

lemma show_map_property_key_error:
  assumes "properties_gdf g = Some P" "communities_gdf g = Some C" "sector_gdf g = Some S"
    and "s \<noteq> []" and "rows (select_boundary C s) = b # bs"
    and "\<not> has_attribute_columns P"
  shows "show_map lib g (Some s) = (Raised KeyError, g)"
proof -
  have "has_attribute_columns C" using assms(5) by (rule select_boundary_populated)
  with assms show ?thesis by (simp add: show_map_def py_not_def)
qed

lemma show_map_no_properties:
  assumes "properties_gdf g = Some P" "communities_gdf g = Some C" "sector_gdf g = Some S"
    and "s \<noteq> []" and "rows (select_boundary C s) = b # bs"
    and "has_attribute_columns P"
    and "rows (select_properties P (boundary_comm_code b)) = []"
  shows "show_map lib g (Some s) =
           (Plain (''No property data found for community: '' @ py_str (name b)
                     @ '' (Filter Code: '' @ py_str (boundary_comm_code b) @ '').'') 404, g)"
proof -
  have "has_attribute_columns C" using assms(5) by (rule select_boundary_populated)
  with assms show ?thesis by (simp add: show_map_def py_not_def)
qed

lemma show_map_undeclared:
  assumes "properties_gdf g = Some P" "communities_gdf g = Some C" "sector_gdf g = Some S"
    and "s \<noteq> []" and "rows (select_boundary C s) = b # bs"
    and "rows (select_properties P (boundary_comm_code b)) = p # ps"
    and "crs P = None \<or> crs C = None"
  shows "show_map lib g (Some s) = (Raised ValueError, g)"
proof (cases "crs P")
  case None
  have populated: "has_attribute_columns C" "has_attribute_columns P"
    using assms(5,6) by (auto intro: select_boundary_populated select_properties_populated)
  from None
  have "to_crs (transform lib) geometry_update (select_properties P (boundary_comm_code b))
               = Inl ValueError"
    by (simp add: to_crs_undeclared select_properties_crs)
  with assms populated show ?thesis by (simp add: show_map_def py_not_def Let_def)
next
  case (Some src)
  have populated: "has_attribute_columns C" "has_attribute_columns P"
    using assms(5,6) by (auto intro: select_boundary_populated select_properties_populated)
  from Some assms(7) have "crs C = None" by simp
  then have c: "to_crs (transform lib) boundary_geometry_update (select_boundary C s) = Inl ValueError"
    by (simp add: to_crs_undeclared select_boundary_crs)
  from Some obtain F where
    "to_crs (transform lib) geometry_update (select_properties P (boundary_comm_code b)) = Inr F"
    by (simp add: to_crs_def select_properties_crs)
  with c assms populated show ?thesis by (simp add: show_map_def py_not_def Let_def)
qed

lemma show_map_rendered:
  assumes "properties_gdf g = Some P" "communities_gdf g = Some C" "sector_gdf g = Some S"
    and "s \<noteq> []" and "rows (select_boundary C s) = b # bs"
    and "rows (select_properties P (boundary_comm_code b)) = p # ps"
    and "crs P = Some cp" and "crs C = Some cc"
  shows "show_map lib g (Some s) =
     (Rendered
        \<lparr>location = (snd (centroid lib (transform lib cc (boundary_geometry b))),
                     fst (centroid lib (transform lib cc (boundary_geometry b)))),
         zoom_start = 14,
         layers =
           [\<lparr>layer_name = ''Boundary: '' @ py_str (comm_name p),
             layer_data = Communities
               \<lparr>rows = map (boundary_geometry_update (transform lib cc)) (b # bs),
                crs = Some ''EPSG:4326''\<rparr>,
             tooltip_fields = [], popup_fields = []\<rparr>,
            \<lparr>layer_name = s @ '' Properties'',
             layer_data = Properties
               \<lparr>rows = map (geometry_update (transform lib cp)) (p # ps),
                crs = Some ''EPSG:4326''\<rparr>,
             tooltip_fields = detail_fields, popup_fields = detail_fields\<rparr>],
         layer_control = True\<rparr>
        (comm_name p), g)"
proof -
  let ?sub = "select_properties P (boundary_comm_code b)"
  let ?cb = "select_boundary C s"
  let ?sub' = "\<lparr>rows = map (geometry_update (transform lib cp)) (p # ps),
                crs = Some ''EPSG:4326''\<rparr>"
  have populated: "has_attribute_columns C" "has_attribute_columns P"
    using assms(5,6) by (auto intro: select_boundary_populated select_properties_populated)
  have 1: "to_crs (transform lib) geometry_update ?sub = Inr ?sub'"
    using assms(6,7) by (simp add: to_crs_def select_properties_crs)
  have 2: "to_crs (transform lib) boundary_geometry_update ?cb =
             Inr \<lparr>rows = map (boundary_geometry_update (transform lib cc)) (b # bs),
                  crs = Some ''EPSG:4326''\<rparr>"
    using assms(5,8) by (simp add: to_crs_def select_boundary_crs)
  show ?thesis
    using assms(1-6) populated
    by (simp add: show_map_def py_not_def Let_def 1 2 reproject_if_needed_same)
qed


section \<open>The city, loaded\<close>

lemma city_globals_fields:
  "properties_gdf city_globals = Some (preprocess_properties parse_unsigned city_properties_raw)"
  "communities_gdf city_globals = Some city_communities"
  "sector_gdf city_globals =
     Some \<lparr>rows = [\<lparr>sector = Some ''CENTRE'', sector_geometry = (- 114, 51)\<rparr>],
           crs = Some ''EPSG:4326''\<rparr>"
  by (simp_all add: city_globals_def load_data_def load_try_def reproject_if_needed_def
        to_crs_def city_sectors_def city_lib_def)

lemma no_boundaries_globals_fields:
  "properties_gdf no_boundaries_globals
     = Some (preprocess_properties parse_unsigned city_properties_raw)"
  "communities_gdf no_boundaries_globals = Some \<lparr>rows = [], crs = Some ''EPSG:4326''\<rparr>"
  "sector_gdf no_boundaries_globals =
     Some \<lparr>rows = [\<lparr>sector = Some ''CENTRE'', sector_geometry = (- 114, 51)\<rparr>],
           crs = Some ''EPSG:4326''\<rparr>"
  by (simp_all add: no_boundaries_globals_def load_data_def load_try_def
        reproject_if_needed_def to_crs_def city_sectors_def city_lib_def)

lemma no_properties_globals_fields:
  "properties_gdf no_properties_globals = Some \<lparr>rows = [], crs = Some ''EPSG:4326''\<rparr>"
  "communities_gdf no_properties_globals = Some city_communities"
  "sector_gdf no_properties_globals =
     Some \<lparr>rows = [\<lparr>sector = Some ''CENTRE'', sector_geometry = (- 114, 51)\<rparr>],
           crs = Some ''EPSG:4326''\<rparr>"
  by (simp_all add: no_properties_globals_def load_data_def load_try_def
        reproject_if_needed_def to_crs_def city_sectors_def city_lib_def
        preprocess_properties_def)

lemma unavailable_globals_fields:
  "properties_gdf unavailable_globals = None"
  "communities_gdf unavailable_globals = None"
  "sector_gdf unavailable_globals = None"
  "calgary_center unavailable_globals = Some default_center"
  by (simp_all add: unavailable_globals_def load_data_def load_try_def)

lemma city_populated:
  "has_attribute_columns city_communities"
  "has_attribute_columns (preprocess_properties parse_unsigned city_properties_raw)"
  by (simp_all add: has_attribute_columns_def city_communities_def preprocess_properties_def
        city_properties_raw_def)

lemma city_boundaries:
  "rows (select_boundary city_communities ''HILLHURST'') =
     [\<lparr>name = Some ''HILLHURST'', boundary_comm_code = Some ''HIL'',
       boundary_geometry = (- 114, 52)\<rparr>]"
  "rows (select_boundary city_communities ''01B'') =
     [\<lparr>name = Some ''01B'', boundary_comm_code = Some ''01B'',
       boundary_geometry = (- 113, 50)\<rparr>]"
  "rows (select_boundary city_communities ''SUNNYSIDE'') =
     [\<lparr>name = Some ''SUNNYSIDE'', boundary_comm_code = Some ''SSD'',
       boundary_geometry = (- 114, 51)\<rparr>]"
  "rows (select_boundary city_communities ''hillhurst'') = []"
  by (simp_all add: select_boundary_rows city_communities_def)

lemma city_subsets:
  "rows (select_properties (preprocess_properties parse_unsigned city_properties_raw) (Some ''HIL'')) =
     map (\<lambda>r. add_formatted (coerce_row parse_unsigned r))
       [raw_property ''HIL'' ''HILLHURST'' ''1 A ST'' (Text ''500000'') Null (- 114, 51),
        raw_property ''HIL'' ''HILLHURST'' ''3 C ST'' (Text ''0'') (Text ''zero'') (- 114, 52),
        raw_property ''HIL'' ''HILLHURST'' ''6 F ST'' (Text []) (Numeric (Int64 999)) (- 114, 53)]"
  "rows (select_properties (preprocess_properties parse_unsigned city_properties_raw) (Some ''01B'')) =
     [add_formatted (coerce_row parse_unsigned
        (raw_property ''01B'' ''RESIDUAL WARD 1 - SUB AREA 1B'' ''4 D ST'' Null Null (- 113, 50)))]"
  "rows (select_properties (preprocess_properties parse_unsigned city_properties_raw) (Some ''SSD'')) = []"
  by (simp_all add: select_properties_def series_eq_Some preprocess_properties_def
        city_properties_raw_def add_formatted_fields coerce_row_fields raw_property_def)


section \<open>Resolution and filtering\<close>

text \<open>
  On a boundary table that has rows, the handler resolves the selection by exact
  equality on \<open>name\<close> and answers a selection that no row carries with the 404
  \<open>No boundary data found for community: ...\<close>.
\<close>

lemma community_not_found_populated:
  assumes "properties_gdf g = Some P" and "communities_gdf g = Some C" and "sector_gdf g = Some S"
    and "\<not> py_not (Some s)" and "has_attribute_columns C"
  shows "rows (select_boundary C s) = filter (\<lambda>b. name b = Some s) (rows C)
       \<and> ((\<forall>b \<in> set (rows C). name b \<noteq> Some s) \<longrightarrow>
            show_map lib g (Some s)
              = (Plain (''No boundary data found for community: '' @ s) 404, g))"
proof (intro conjI impI)
  show "rows (select_boundary C s) = filter (\<lambda>b. name b = Some s) (rows C)"
    by (rule select_boundary_rows)
next
  assume "\<forall>b \<in> set (rows C). name b \<noteq> Some s"
  then have none: "rows (select_boundary C s) = []"
    by (simp add: select_boundary_rows filter_empty_conv)
  have supplied: "s \<noteq> []" using assms(4) by (simp add: py_not_def)
  from assms(1-3) supplied assms(5) none
  show "show_map lib g (Some s)
      = (Plain (''No boundary data found for community: '' @ s) 404, g)"
    by (rule show_map_no_boundary)
qed

text \<open>The selection differs from HILLHURST in case only.\<close>

lemma community_not_found_city:
  "fst (show_map city_lib city_globals (Some ''hillhurst''))
     = Plain ''No boundary data found for community: hillhurst'' 404"
proof -
  have "\<not> py_not (Some ''hillhurst'')" by (simp add: py_not_def)
  from community_not_found_populated [OF city_globals_fields this city_populated(1), of city_lib]
  show ?thesis by (simp add: city_communities_def)
qed

text \<open>
  Claim C4. The claim asks that a supplied selection which no boundary record matches
  be answered with the not-found result. The handler does so on a boundary table with
  rows, as above. On a boundary table read from a collection without features no
  record matches either, but the table has no \<open>name\<close> column: with the datasets
  loaded, the request for HILLHURST leaves line 125 with a KeyError, which is neither
  the not-found response nor any other response of the handler.
\<close>

theorem community_not_found_without_features:
  "properties_gdf no_boundaries_globals \<noteq> None
   \<and> communities_gdf no_boundaries_globals = Some \<lparr>rows = [], crs = Some ''EPSG:4326''\<rparr>
   \<and> sector_gdf no_boundaries_globals \<noteq> None
   \<and> fst (show_map city_lib no_boundaries_globals (Some ''HILLHURST'')) = Raised KeyError
   \<and> fst (show_map city_lib no_boundaries_globals (Some ''HILLHURST''))
       \<noteq> Plain ''No boundary data found for community: HILLHURST'' 404"
proof -
  have "(''HILLHURST'' :: string) \<noteq> []" by simp
  moreover have "\<not> has_attribute_columns \<lparr>rows = [] :: point community list, crs = Some ''EPSG:4326''\<rparr>"
    by (simp add: has_attribute_columns_def)
  ultimately
  have "show_map city_lib no_boundaries_globals (Some ''HILLHURST'')
          = (Raised KeyError, no_boundaries_globals)"
    by (rule show_map_boundary_key_error [OF no_boundaries_globals_fields])
  then show ?thesis by (simp add: no_boundaries_globals_fields)
qed

text \<open>
  On a properties table that has rows, a matched boundary whose code no property
  carries is answered with the 404
  \<open>No property data found for community: ... (Filter Code: ...).\<close>, which differs from
  the not-found response of every selection.
\<close>

lemma no_properties_populated:
  assumes "properties_gdf g = Some P" and "communities_gdf g = Some C" and "sector_gdf g = Some S"
    and "\<not> py_not (Some s)"
    and "rows (select_boundary C s) = b # bs"
    and "has_attribute_columns P"
    and "rows (select_properties P (boundary_comm_code b)) = []"
  shows "show_map lib g (Some s) =
           (Plain (''No property data found for community: '' @ s
                     @ '' (Filter Code: '' @ py_str (boundary_comm_code b) @ '').'') 404, g)
       \<and> fst (show_map lib g (Some s))
           \<noteq> Plain (''No boundary data found for community: '' @ s') 404"
proof -
  have "name b = Some s" using assms(5) by (rule select_boundary_name)
  then have "py_str (name b) = s" by (simp add: py_str_def)
  moreover have supplied: "s \<noteq> []" using assms(4) by (simp add: py_not_def)
  ultimately show ?thesis
    using show_map_no_properties [OF assms(1-3) supplied assms(5-7), of lib] by simp
qed

text \<open>SUNNYSIDE has a boundary and no property.\<close>

lemma no_properties_city:
  "fst (show_map city_lib city_globals (Some ''SUNNYSIDE''))
     = Plain ''No property data found for community: SUNNYSIDE (Filter Code: SSD).'' 404"
proof -
  have ne: "\<not> py_not (Some ''SUNNYSIDE'')" by (simp add: py_not_def)
  have sub: "rows (select_properties (preprocess_properties parse_unsigned city_properties_raw)
               (boundary_comm_code \<lparr>name = Some ''SUNNYSIDE'', boundary_comm_code = Some ''SSD'',
                  boundary_geometry = (- 114, 51)\<rparr>)) = []"
    by (simp add: city_subsets)
  from no_properties_populated
         [OF city_globals_fields ne city_boundaries(3) city_populated(2) sub, of city_lib]
  show ?thesis by (simp add: py_str_def)
qed

text \<open>
  Claim C5. The claim asks that a matched boundary whose code no property record
  carries be answered with the no-properties result. The handler does so on a
  properties table with rows, as above. On a properties table read from a collection
  without features no record carries the code either, but the table has no
  \<open>comm_code\<close> column: with the datasets loaded and the boundary HILLHURST matched,
  the request leaves line 138 with a KeyError, which is neither the no-properties
  response nor any other response of the handler.
\<close>

theorem no_properties_without_features:
  "properties_gdf no_properties_globals = Some \<lparr>rows = [], crs = Some ''EPSG:4326''\<rparr>
   \<and> communities_gdf no_properties_globals = Some city_communities
   \<and> sector_gdf no_properties_globals \<noteq> None
   \<and> rows (select_boundary city_communities ''HILLHURST'') \<noteq> []
   \<and> fst (show_map city_lib no_properties_globals (Some ''HILLHURST'')) = Raised KeyError
   \<and> fst (show_map city_lib no_properties_globals (Some ''HILLHURST''))
       \<noteq> Plain ''No property data found for community: HILLHURST (Filter Code: HIL).'' 404"
proof -
  have "(''HILLHURST'' :: string) \<noteq> []" by simp
  moreover note city_boundaries(1)
  moreover
  have "\<not> has_attribute_columns
          \<lparr>rows = [] :: (number option, point) property list, crs = Some ''EPSG:4326''\<rparr>"
    by (simp add: has_attribute_columns_def)
  ultimately
  have "show_map city_lib no_properties_globals (Some ''HILLHURST'')
          = (Raised KeyError, no_properties_globals)"
    by (rule show_map_property_key_error [OF no_properties_globals_fields])
  then show ?thesis by (simp add: no_properties_globals_fields city_boundaries(1))
qed


section \<open>The display name\<close>

text \<open>
  Claim C3. With the datasets loaded, a supplied selection, a matching boundary row
  \<open>b\<close> and a non-empty property subset whose first row is \<open>p\<close>: when both tables
  declare a reference system, the page is rendered and its \<open>community_name\<close> is the
  \<open>comm_name\<close> of \<open>p\<close>; when one declares none, \<open>to_crs\<close> raises and no name is
  passed; and whenever the \<open>comm_name\<close> of \<open>p\<close> differs from the boundary's
  \<open>name\<close>, the name passed is not the boundary's.
\<close>

theorem display_name_from_first_property:
  assumes "properties_gdf g = Some P" and "communities_gdf g = Some C" and "sector_gdf g = Some S"
    and "\<not> py_not (Some s)"
    and "rows (select_boundary C s) = b # bs"
    and "rows (select_properties P (boundary_comm_code b)) = p # ps"
  shows "(crs P \<noteq> None \<and> crs C \<noteq> None \<longrightarrow>
            community_name (fst (show_map lib g (Some s))) = Some (comm_name p))
       \<and> (crs P = None \<or> crs C = None \<longrightarrow>
            community_name (fst (show_map lib g (Some s))) = None)
       \<and> (comm_name p \<noteq> name b \<longrightarrow>
            community_name (fst (show_map lib g (Some s))) \<noteq> Some (name b))"
proof -
  have supplied: "s \<noteq> []" using assms(4) by (simp add: py_not_def)
  note loaded = assms(1-3) supplied assms(5,6)
  have declared: "community_name (fst (show_map lib g (Some s))) = Some (comm_name p)"
    if "crs P \<noteq> None \<and> crs C \<noteq> None"
  proof -
    from that obtain cp cc where "crs P = Some cp" "crs C = Some cc" by auto
    from show_map_rendered [OF loaded this] show ?thesis by simp
  qed
  have undeclared: "community_name (fst (show_map lib g (Some s))) = None"
    if "crs P = None \<or> crs C = None"
    using show_map_undeclared [OF loaded that] by simp
  have "community_name (fst (show_map lib g (Some s))) \<noteq> Some (name b)"
    if "comm_name p \<noteq> name b"
  proof (cases "crs P \<noteq> None \<and> crs C \<noteq> None")
    case True
    with declared that show ?thesis by simp
  next
    case False
    then have "crs P = None \<or> crs C = None" by simp
    with undeclared show ?thesis by simp
  qed
  with declared undeclared show ?thesis by blast
qed

text \<open>
  The sub-area 01B: the boundary is named by its code, the page by the long name of
  its first property.
\<close>

theorem display_name_from_first_property_witness:
  "community_name (fst (show_map city_lib city_globals (Some ''01B'')))
     = Some (Some ''RESIDUAL WARD 1 - SUB AREA 1B'')
   \<and> community_name (fst (show_map city_lib city_globals (Some ''01B''))) \<noteq> Some (Some ''01B'')
   \<and> community_name
        (fst (show_map city_lib
           (city_globals
              \<lparr>properties_gdf :=
                 Some ((preprocess_properties parse_unsigned city_properties_raw)
                         \<lparr>crs := None\<rparr>)\<rparr>)
           (Some ''01B''))) = None"
proof -
  let ?P = "preprocess_properties parse_unsigned city_properties_raw"
  let ?b = "\<lparr>name = Some ''01B'', boundary_comm_code = Some ''01B'',
             boundary_geometry = (- 113, 50)\<rparr> :: point community"
  let ?p = "add_formatted (coerce_row parse_unsigned
              (raw_property ''01B'' ''RESIDUAL WARD 1 - SUB AREA 1B'' ''4 D ST'' Null Null
                 (- 113, 50)))"
  let ?g = "city_globals\<lparr>properties_gdf := Some (?P\<lparr>crs := None\<rparr>)\<rparr>"
  have supplied: "\<not> py_not (Some ''01B'')" by (simp add: py_not_def)
  have declared: "crs ?P \<noteq> None \<and> crs city_communities \<noteq> None"
    by (simp add: preprocess_properties_def city_properties_raw_def city_communities_def)
  have sub: "rows (select_properties ?P (boundary_comm_code ?b)) = [?p]"
    by (simp add: city_subsets)
  have loaded: "properties_gdf ?g = Some (?P\<lparr>crs := None\<rparr>)"
    "communities_gdf ?g = Some city_communities"
    "sector_gdf ?g =
       Some \<lparr>rows = [\<lparr>sector = Some ''CENTRE'', sector_geometry = (- 114, 51)\<rparr>],
             crs = Some ''EPSG:4326''\<rparr>"
    by (simp_all add: city_globals_fields)
  have sub': "rows (select_properties (?P\<lparr>crs := None\<rparr>) (boundary_comm_code ?b)) = [?p]"
    using sub by (simp add: select_properties_def)
  have undeclared: "crs (?P\<lparr>crs := None\<rparr>) = None \<or> crs city_communities = None"
    by simp
  from display_name_from_first_property
         [OF city_globals_fields supplied city_boundaries(2) sub, of city_lib] declared
       display_name_from_first_property
         [OF loaded supplied city_boundaries(2) sub', of city_lib] undeclared
  show ?thesis
    by (simp add: add_formatted_fields coerce_row_fields raw_property_def)
qed


section \<open>Missing selection\<close>

text \<open>
  A detail request without selection on loaded data and a detail request for
  HILLHURST on unavailable data receive the same response.
\<close>

theorem missing_selection_same_as_unavailable:
  "fst (show_map city_lib city_globals None)
     = fst (show_map city_lib unavailable_globals (Some ''HILLHURST''))"
  by (simp add: show_map_guard py_not_def unavailable_globals_fields)


text \<open>
  Claim C8, amended. A detail request without a community name (no form field, or an
  empty one) receives the status 400 with the body
  \<open>Error: Community not selected or data not loaded.\<close>; the response differs from
  the not-found response of every selection and from the overview's data-unavailable
  response, and it is the response every detail request receives while a dataset is
  unavailable.
\<close>

theorem missing_selection_client_error:
  assumes "py_not selected"
  shows "show_map lib g selected
           = (Plain ''Error: Community not selected or data not loaded.'' 400, g)
       \<and> fst (show_map lib g selected)
           \<noteq> Plain (''No boundary data found for community: '' @ s) 404
       \<and> fst (show_map lib g selected) \<noteq> Plain ''Error: Data not loaded.'' 500
       \<and> (properties_gdf g' = None \<or> communities_gdf g' = None \<or> sector_gdf g' = None \<longrightarrow>
            fst (show_map lib g' selected') = fst (show_map lib g selected))"
  using assms by (simp add: show_map_guard)


theorem missing_selection_client_error_witness:
  "fst (show_map city_lib city_globals (Some []))
     = Plain ''Error: Community not selected or data not loaded.'' 400
   \<and> fst (show_map city_lib unavailable_globals (Some ''HILLHURST''))
     = fst (show_map city_lib city_globals (Some []))"
proof -
  have "py_not (Some [])" by (simp add: py_not_def)
  from missing_selection_client_error
         [OF this, of city_lib city_globals _ unavailable_globals "Some ''HILLHURST''"]
  show ?thesis by (simp add: unavailable_globals_fields)
qed


section \<open>Requests leave the datasets alone\<close>

lemma calgary_overview_frame: "snd (calgary_overview g) = g"
  by (simp add: calgary_overview_def split: option.splits)

lemma show_map_frame: "snd (show_map lib g selected) = g"
  by (simp add: show_map_def Let_def split: sum.splits)

lemma handle_frame: "snd (handle lib g req) = g"
  by (cases req) (simp_all add: handle_def calgary_overview_frame show_map_frame)

lemma serve_frame: "snd (serve lib g reqs) = g"
proof (induction reqs arbitrary: g)
  case Nil
  show ?case by simp
next
  case (Cons req reqs)
  obtain resp g' where h: "handle lib g req = (resp, g')" by (cases "handle lib g req")
  then have "g' = g" using handle_frame [of lib g req] by simp
  moreover obtain resps g'' where t: "serve lib g reqs = (resps, g'')"
    by (cases "serve lib g reqs")
  moreover have "g'' = g" using Cons.IH [of g] t by simp
  ultimately show ?case using h by simp
qed

text \<open>Every request of a sequence is answered from the datasets as loaded.\<close>

lemma serve_responses: "fst (serve lib g reqs) = map (\<lambda>req. fst (handle lib g req)) reqs"
proof (induction reqs)
  case Nil
  show ?case by simp
next
  case (Cons req reqs)
  obtain resp g' where h: "handle lib g req = (resp, g')" by (cases "handle lib g req")
  then have "g' = g" using handle_frame [of lib g req] by simp
  moreover obtain resps g'' where t: "serve lib g reqs = (resps, g'')"
    by (cases "serve lib g reqs")
  ultimately show ?case using h Cons.IH by simp
qed

text \<open>
  Claim C10. An overview request, a detail request and any sequence of requests leave
  the three datasets and the display centre exactly as they were, on every path:
  rendered page, error response or raised exception.
\<close>

theorem requests_leave_datasets_unchanged:
  "snd (calgary_overview g) = g \<and> snd (show_map lib g selected) = g
   \<and> snd (serve lib g reqs) = g"
  by (simp add: calgary_overview_frame show_map_frame serve_frame)

theorem requests_leave_datasets_unchanged_witness:
  "snd (serve city_lib city_globals
          [Overview, Detail (Some ''HILLHURST''), Detail None, Detail (Some ''SUNNYSIDE'')])
     = city_globals"
  using requests_leave_datasets_unchanged
    [of city_globals city_lib None
       "[Overview, Detail (Some ''HILLHURST''), Detail None, Detail (Some ''SUNNYSIDE'')]"]
  by blast

end
